theory Spec2Isabelle
  imports Complex_Main
begin

section \<open>Python strings and values\<close>

text \<open>
  Strings are lists of characters with codes 0 to 255. On ASCII strings (all codes below
  128) the functions below are Python's \<open>str.strip\<close>, \<open>str.lower\<close> and
  \<open>str.upper\<close>. Outside ASCII Python follows the Unicode database, which is not
  modelled: what is proved of these functions is stated for ASCII strings.
\<close>

definition ascii :: "string \<Rightarrow> bool" where
  "ascii s = list_all (\<lambda>c. (of_char c :: nat) < 128) s"

definition is_space :: "char \<Rightarrow> bool" where
  "is_space c = (let n = (of_char c :: nat) in (9 \<le> n \<and> n \<le> 13) \<or> (28 \<le> n \<and> n \<le> 32))"

definition strip :: "string \<Rightarrow> string" where
  "strip s = rev (dropWhile is_space (rev (dropWhile is_space s)))"

definition lower_char :: "char \<Rightarrow> char" where
  "lower_char c = (let n = (of_char c :: nat) in if 65 \<le> n \<and> n \<le> 90 then char_of (n + 32) else c)"

definition upper_char :: "char \<Rightarrow> char" where
  "upper_char c = (let n = (of_char c :: nat) in if 97 \<le> n \<and> n \<le> 122 then char_of (n - 32) else c)"

definition lower :: "string \<Rightarrow> string" where
  "lower s = map lower_char s"

definition upper :: "string \<Rightarrow> string" where
  "upper s = map upper_char s"

definition startswith_hash :: "string \<Rightarrow> bool" where
  "startswith_hash s = (case s of [] \<Rightarrow> False | c # _ \<Rightarrow> c = CHR ''#'')"

text \<open>\<open>s.lstrip("#")\<close> removes every leading \<open>#\<close>, not only the first.\<close>

definition lstrip_hash :: "string \<Rightarrow> string" where
  "lstrip_hash s = dropWhile (\<lambda>c. c = CHR ''#'') s"

text \<open>Decimal and hexadecimal rendering of integers, as \<open>str(n)\<close> and the format \<open>02X\<close> do.\<close>

definition digit_char :: "nat \<Rightarrow> char" where
  "digit_char d = (if d < 10 then char_of (48 + d) else char_of (55 + d))"

function digits_base :: "nat \<Rightarrow> nat \<Rightarrow> string" where
  "digits_base b n =
     (if b < 2 \<or> n < b then [digit_char n] else digits_base b (n div b) @ [digit_char (n mod b)])"
  by pat_completeness auto
termination
  by (relation "measure (\<lambda>(b, n). n)") auto

declare digits_base.simps [simp del]

definition str_int :: "int \<Rightarrow> string" where
  "str_int i = (if i < 0 then CHR ''-'' # digits_base 10 (nat (- i)) else digits_base 10 (nat i))"

definition zfill :: "nat \<Rightarrow> string \<Rightarrow> string" where
  "zfill w s = replicate (w - length s) CHR ''0'' @ s"

text \<open>
  The format specification \<open>02X\<close>: uppercase hexadecimal, zero-padded to width 2, the
  sign (if any) counted in the width and written before the padding.
\<close>

definition format_02X :: "int \<Rightarrow> string" where
  "format_02X a =
     (if a < 0 then CHR ''-'' # zfill 1 (digits_base 16 (nat (- a)))
      else zfill 2 (digits_base 16 (nat a)))"

section \<open>Color normalization and alpha compositing\<close>

definition COLOR_NAMES :: "(string \<times> string) list" where
  "COLOR_NAMES =
    [(''red'', ''#FF0000''),
     (''green'', ''#00FF00''),
     (''blue'', ''#0000FF''),
     (''white'', ''#FFFFFF''),
     (''black'', ''#000000''),
     (''yellow'', ''#FFFF00''),
     (''orange'', ''#FFA500''),
     (''purple'', ''#800080''),
     (''pink'', ''#FFC0CB''),
     (''cyan'', ''#00FFFF''),
     (''magenta'', ''#FF00FF''),
     (''gray'', ''#808080''),
     (''grey'', ''#808080''),
     (''brown'', ''#A52A2A''),
     (''lime'', ''#00FF00''),
     (''navy'', ''#000080''),
     (''teal'', ''#008080''),
     (''maroon'', ''#800000''),
     (''olive'', ''#808000''),
     (''silver'', ''#C0C0C0''),
     (''aqua'', ''#00FFFF''),
     (''gold'', ''#FFD700''),
     (''coral'', ''#FF7F50''),
     (''salmon'', ''#FA8072''),
     (''violet'', ''#EE82EE''),
     (''indigo'', ''#4B0082''),
     (''turquoise'', ''#40E0D0'')]"

text \<open>
  \<open>_normalize_hex_color(color: str | None) -> str | None\<close>. The absent color is
  \<open>None\<close>; \<open>not color\<close> holds for the empty string.
\<close>

definition normalize_hex_color :: "string option \<Rightarrow> string option" where
  "normalize_hex_color color =
     (case color of
        None \<Rightarrow> None
      | Some c0 \<Rightarrow>
          if c0 = [] then None
          else
            let c = lower (strip c0) in
            (case map_of COLOR_NAMES c of
               Some h \<Rightarrow> Some h
             | None \<Rightarrow> Some (upper (if startswith_hash c then c else CHR ''#'' # c))))"

text \<open>
  \<open>int(x / 100)\<close> for an integer \<open>x\<close>: true division, which gives the double
  nearest to the quotient (ties to the even significand) or raises \<open>OverflowError\<close>
  when that is beyond the range of doubles, followed by truncation toward zero.

  For \<open>a \<ge> 100\<close>, the double nearest to \<open>a / 100\<close> is \<open>m * 2 ^ k\<close>, where
  \<open>k + 52\<close> is the exponent of the quotient and \<open>m\<close> the quotient in units of
  \<open>2 ^ k\<close>, rounded.
\<close>

function bit_length :: "nat \<Rightarrow> nat" where
  "bit_length n = (if n = 0 then 0 else Suc (bit_length (n div 2)))"
  by pat_completeness auto
termination
  by (relation "measure (\<lambda>n. n)") auto

declare bit_length.simps [simp del]

definition round_half_even :: "nat \<Rightarrow> nat \<Rightarrow> nat" where
  "round_half_even a b =
     (let q = a div b; r = a mod b
      in if 2 * r < b \<or> (2 * r = b \<and> even q) then q else q + 1)"

definition float_quotient_100 :: "nat \<Rightarrow> nat \<times> int" where
  "float_quotient_100 a =
     (let k = int (bit_length (a div 100)) - 53
      in (if k < 0 then round_half_even (a * 2 ^ nat (- k)) 100
          else round_half_even a (100 * 2 ^ nat k), k))"

definition truediv_100_overflows :: "int \<Rightarrow> bool" where
  "truediv_100_overflows x =
     (let (m, k) = float_quotient_100 (nat \<bar>x\<bar>)
      in 0 \<le> k \<and> 2 ^ 1024 \<le> m * 2 ^ nat k)"

text \<open>
  Below \<open>2 ^ 53\<close> the double is the exact quotient when that is an integer, and
  otherwise lies strictly between the same two integers as the exact quotient (it is off
  by less than \<open>1 / 128\<close>, the quotient is at least \<open>1 / 100\<close> from an integer):
  the truncation is that of the exact quotient.
\<close>

definition int_truediv_100 :: "int \<Rightarrow> int" where
  "int_truediv_100 x =
     (let a = nat \<bar>x\<bar>;
          t = (if a < 2 ^ 53 then a div 100
               else let (m, k) = float_quotient_100 a
                    in if k < 0 then m div 2 ^ nat (- k) else m * 2 ^ nat k)
      in if 0 \<le> x then int t else - int t)"

text \<open>
  \<open>_hex_with_alpha(color: str | None, opacity: int | None) -> str | None\<close>, for an
  opacity whose division does not overflow.
\<close>

definition opacity_overflows :: "int option \<Rightarrow> bool" where
  "opacity_overflows opacity =
     truediv_100_overflows ((case opacity of None \<Rightarrow> 40 | Some p \<Rightarrow> p) * 255)"

definition hex_with_alpha :: "string option \<Rightarrow> int option \<Rightarrow> string option" where
  "hex_with_alpha color opacity =
     (case color of
        None \<Rightarrow> None
      | Some c0 \<Rightarrow>
          if c0 = [] then None
          else
            (case normalize_hex_color (Some c0) of
               None \<Rightarrow> None
             | Some c \<Rightarrow>
                 let rgb = lstrip_hash c in
                 if length rgb = 6 then
                   let alpha = int_truediv_100 ((case opacity of None \<Rightarrow> 40 | Some p \<Rightarrow> p) * 255)
                   in Some (CHR ''#'' # format_02X alpha @ rgb)
                 else Some c))"


text \<open>The shapes of string the claims about colors speak of.\<close>

definition is_upper_hex :: "char \<Rightarrow> bool" where
  "is_upper_hex c = (let n = (of_char c :: nat) in (48 \<le> n \<and> n \<le> 57) \<or> (65 \<le> n \<and> n \<le> 70))"


definition is_rrggbb :: "string \<Rightarrow> bool" where
  "is_rrggbb s =
     (case s of [] \<Rightarrow> False | c # rgb \<Rightarrow> c = CHR ''#'' \<and> length rgb = 6 \<and> list_all is_upper_hex rgb)"

text \<open>
  The alpha value in the words of the specification, \<open>round(opacity * 255 / 100)\<close>,
  to be compared with the one \<open>hex_with_alpha\<close> computes.
\<close>

definition spec_round_alpha :: "int \<Rightarrow> int" where
  "spec_round_alpha opacity = round (real_of_int opacity * 255 / 100)"

section \<open>Values, dictionaries and errors\<close>

datatype pyval = VNone | VBool bool | VInt int | VStr string

type_synonym pydict = "string \<rightharpoonup> pyval"

definition truthy :: "pyval \<Rightarrow> bool" where
  "truthy v = (case v of VNone \<Rightarrow> False | VBool b \<Rightarrow> b | VInt n \<Rightarrow> n \<noteq> 0 | VStr s \<Rightarrow> s \<noteq> [])"

text \<open>\<open>d.get(k)\<close>: the value, or \<open>None\<close> for a missing key.\<close>

definition dict_get :: "pydict \<Rightarrow> string \<Rightarrow> pyval" where
  "dict_get d k = (case d k of None \<Rightarrow> VNone | Some v \<Rightarrow> v)"

text \<open>
  A field that the service schemas type as \<open>cv.string\<close>, read from validated call
  data: the string, or nothing when the key is missing.
\<close>

definition str_get :: "pydict \<Rightarrow> string \<Rightarrow> string option" where
  "str_get d k = (case d k of Some (VStr s) \<Rightarrow> Some s | _ \<Rightarrow> None)"

text \<open>
  The exceptions. \<open>Uncaught name\<close> is an exception raised inside the \<open>try\<close>
  of \<open>_request\<close> whose class, called \<open>name\<close>, is neither
  \<open>asyncio.TimeoutError\<close> nor \<open>aiohttp.ClientError\<close> nor a subclass of them, such
  as the \<open>UnicodeDecodeError\<close> of a body that cannot be decoded.
\<close>

datatype error =
    TvOverlayConnectionError string
  | AttributeError
  | TypeError
  | KeyError
  | OverflowError
  | Uncaught string

section \<open>Constants\<close>

text \<open>
  Modelled from the spec: \<open>const.py\<close> is not among the sources. The names of the
  caller's fields follow the keys the specification writes for caller input
  (\<open>title\<close>, \<open>media_type\<close>, \<open>media_url\<close>): each \<open>ATTR_X\<close> is the lower-case
  name \<open>x\<close>. Only their being pairwise different matters below.
\<close>

definition ATTR_DEVICE_ID :: string where "ATTR_DEVICE_ID = ''device_id''"
definition ATTR_HOST :: string where "ATTR_HOST = ''host''"
definition ATTR_ID :: string where "ATTR_ID = ''id''"
definition ATTR_TITLE :: string where "ATTR_TITLE = ''title''"
definition ATTR_MESSAGE :: string where "ATTR_MESSAGE = ''message''"
definition ATTR_SOURCE :: string where "ATTR_SOURCE = ''source''"
definition ATTR_CORNER :: string where "ATTR_CORNER = ''corner''"
definition ATTR_DURATION :: string where "ATTR_DURATION = ''duration''"
definition ATTR_SMALL_ICON :: string where "ATTR_SMALL_ICON = ''small_icon''"
definition ATTR_SMALL_ICON_COLOR :: string where "ATTR_SMALL_ICON_COLOR = ''small_icon_color''"
definition ATTR_LARGE_ICON :: string where "ATTR_LARGE_ICON = ''large_icon''"
definition ATTR_MEDIA_TYPE :: string where "ATTR_MEDIA_TYPE = ''media_type''"
definition ATTR_MEDIA_URL :: string where "ATTR_MEDIA_URL = ''media_url''"
definition ATTR_VISIBLE :: string where "ATTR_VISIBLE = ''visible''"
definition ATTR_SHAPE :: string where "ATTR_SHAPE = ''shape''"
definition ATTR_EXPIRATION :: string where "ATTR_EXPIRATION = ''expiration''"
definition ATTR_ICON :: string where "ATTR_ICON = ''icon''"
definition ATTR_MESSAGE_COLOR :: string where "ATTR_MESSAGE_COLOR = ''message_color''"
definition ATTR_ICON_COLOR :: string where "ATTR_ICON_COLOR = ''icon_color''"
definition ATTR_BORDER_COLOR :: string where "ATTR_BORDER_COLOR = ''border_color''"
definition ATTR_BACKGROUND_COLOR :: string where "ATTR_BACKGROUND_COLOR = ''background_color''"
definition ATTR_BACKGROUND_OPACITY :: string where "ATTR_BACKGROUND_OPACITY = ''background_opacity''"

text \<open>
  The other constants of \<open>const.py\<close> (the default port, the integration's domain
  and the endpoint paths) have values the sources do not show; they are parameters of
  the functions that use them. So is what \<open>int\<close> makes of a string that is not
  ASCII, which depends on the spaces and decimal digits of the Unicode database.
\<close>

record constants =
  DEFAULT_PORT :: int
  DOMAIN :: string
  ENDPOINT_NOTIFY :: string
  ENDPOINT_NOTIFY_FIXED :: string
  INT_NON_ASCII :: "string \<Rightarrow> int option"

section \<open>Parsing \<open>host:port\<close>\<close>

definition is_digit :: "char \<Rightarrow> bool" where
  "is_digit c = (let n = (of_char c :: nat) in 48 \<le> n \<and> n \<le> 57)"

text \<open>
  Digits with single underscores between them, as \<open>int\<close> accepts:
  the state is whether the previous character was a digit.
\<close>

fun digits_ok :: "bool \<Rightarrow> string \<Rightarrow> bool" where
  "digits_ok prev [] = prev"
| "digits_ok prev (c # cs) =
     (if is_digit c then digits_ok True cs
      else if c = CHR ''_'' \<and> prev then digits_ok False cs
      else False)"

definition digits_value :: "string \<Rightarrow> nat" where
  "digits_value s = foldl (\<lambda>acc c. 10 * acc + (of_char c - 48)) 0 (filter is_digit s)"

text \<open>
  The whitespace that \<open>int\<close> skips around an ASCII string: tab, line feed, vertical
  tab, form feed, carriage return and space. (The separators 28 to 31, which
  \<open>str.strip\<close> removes, are not among them.)
\<close>

definition is_c_space :: "char \<Rightarrow> bool" where
  "is_c_space c = (let n = (of_char c :: nat) in (9 \<le> n \<and> n \<le> 13) \<or> n = 32)"

text \<open>
  \<open>int(s)\<close> on an ASCII string: surrounding whitespace is skipped, one sign is
  allowed, then come decimal digits with single underscores between them, at most 4300
  digits (the default limit of the interpreter). \<open>None\<close> stands for \<open>ValueError\<close>.
\<close>

definition ascii_int :: "string \<Rightarrow> int option" where
  "ascii_int s =
     (let t = rev (dropWhile is_c_space (rev (dropWhile is_c_space s)));
          neg = (case t of [] \<Rightarrow> False | c # _ \<Rightarrow> c = CHR ''-'');
          body = (case t of [] \<Rightarrow> [] | c # r \<Rightarrow> if c = CHR ''-'' \<or> c = CHR ''+'' then r else t)
      in if digits_ok False body \<and> length (filter is_digit body) \<le> 4300
         then Some (if neg then - int (digits_value body) else int (digits_value body))
         else None)"

definition py_int :: "constants \<Rightarrow> string \<Rightarrow> int option" where
  "py_int K s = (if ascii s then ascii_int s else INT_NON_ASCII K s)"

text \<open>\<open>s.rsplit(":", 1)\<close> for a string that contains a colon: the split at the last one.\<close>

definition rsplit_colon :: "string \<Rightarrow> string \<times> string" where
  "rsplit_colon s =
     (let suffix = rev (takeWhile (\<lambda>c. c \<noteq> CHR '':'') (rev s))
      in (take (length s - length suffix - 1) s, suffix))"

definition parse_host_port :: "constants \<Rightarrow> string \<Rightarrow> string \<times> int" where
  "parse_host_port K host_string =
     (if CHR '':'' \<in> set host_string then
        let parts = rsplit_colon host_string
        in (case py_int K (snd parts) of
              Some p \<Rightarrow> (fst parts, p)
            | None \<Rightarrow> (host_string, DEFAULT_PORT K))
      else (host_string, DEFAULT_PORT K))"


section \<open>Payload builders\<close>

text \<open>
  The builders take \<open>dict[str, Any]\<close>. Where a value is passed to a function that
  is annotated \<open>str | None\<close> or \<open>int | None\<close>, the two definitions below give the
  argument the function sees, or the exception Python raises for a value of another type:
  a non-empty value without \<open>strip\<close> raises \<open>AttributeError\<close>, an empty one is
  answered like \<open>None\<close>; \<open>bool\<close> is an \<open>int\<close>; a string opacity raises
  \<open>TypeError\<close> in \<open>opacity * 255 / 100\<close>.
\<close>

definition color_arg :: "pyval \<Rightarrow> error + string option" where
  "color_arg v =
     (case v of
        VStr s \<Rightarrow> Inr (Some s)
      | _ \<Rightarrow> if truthy v then Inl AttributeError else Inr None)"

definition opacity_arg :: "pyval \<Rightarrow> error + int option" where
  "opacity_arg v =
     (case v of
        VNone \<Rightarrow> Inr None
      | VInt n \<Rightarrow> Inr (Some n)
      | VBool b \<Rightarrow> Inr (Some (if b then 1 else 0))
      | VStr s \<Rightarrow> Inl TypeError)"

text \<open>
  The call \<open>_hex_with_alpha(bg_color, bg_opacity)\<close> on two dictionary values. The
  opacity is only looked at when the color has six characters after its \<open>#\<close>s; it is
  then that a string raises \<open>TypeError\<close> and a huge integer \<open>OverflowError\<close>.
\<close>

definition call_hex_with_alpha :: "pyval \<Rightarrow> pyval \<Rightarrow> error + string option" where
  "call_hex_with_alpha color opacity =
     (case color_arg color of
        Inl e \<Rightarrow> Inl e
      | Inr c \<Rightarrow>
          (case normalize_hex_color c of
             None \<Rightarrow> Inr None
           | Some n \<Rightarrow>
               if length (lstrip_hash n) = 6 then
                 (case opacity_arg opacity of
                    Inl e \<Rightarrow> Inl e
                  | Inr p \<Rightarrow> if opacity_overflows p then Inl OverflowError
                             else Inr (hex_with_alpha c p))
               else Inr (Some n)))"

definition opt_val :: "string option \<Rightarrow> pyval" where
  "opt_val r = (case r of None \<Rightarrow> VNone | Some s \<Rightarrow> VStr s)"

text \<open>
  The loop over \<open>simple_fields\<close>:
  \<open>if attr in data and data[attr] is not None: payload[api_key] = data[attr]\<close>.
\<close>

fun copy_simple_fields :: "(string \<times> string) list \<Rightarrow> pydict \<Rightarrow> pydict \<Rightarrow> pydict" where
  "copy_simple_fields [] data payload = payload"
| "copy_simple_fields ((attr, api_key) # rest) data payload =
     copy_simple_fields rest data
       (case data attr of
          None \<Rightarrow> payload
        | Some v \<Rightarrow> if v \<noteq> VNone then payload(api_key \<mapsto> v) else payload)"

text \<open>\<open>if attr in data and data[attr]: payload[api_key] = data[attr]\<close>.\<close>

definition copy_if_truthy :: "string \<Rightarrow> string \<Rightarrow> pydict \<Rightarrow> pydict \<Rightarrow> pydict" where
  "copy_if_truthy attr api_key data payload =
     (case data attr of
        None \<Rightarrow> payload
      | Some v \<Rightarrow> if truthy v then payload(api_key \<mapsto> v) else payload)"

text \<open>
  \<open>c = _normalize_hex_color(data.get(attr)); if c: payload[api_key] = c\<close>.
\<close>

definition copy_color :: "string \<Rightarrow> string \<Rightarrow> pydict \<Rightarrow> pydict \<Rightarrow> error + pydict" where
  "copy_color attr api_key data payload =
     (case color_arg (dict_get data attr) of
        Inl e \<Rightarrow> Inl e
      | Inr c \<Rightarrow>
          (case normalize_hex_color c of
             None \<Rightarrow> Inr payload
           | Some col \<Rightarrow> Inr (if col \<noteq> [] then payload(api_key \<mapsto> VStr col) else payload)))"

definition notification_simple_fields :: "(string \<times> string) list" where
  "notification_simple_fields =
     [(ATTR_ID, ''id''), (ATTR_TITLE, ''title''), (ATTR_MESSAGE, ''message''),
      (ATTR_SOURCE, ''source''), (ATTR_CORNER, ''corner''), (ATTR_DURATION, ''duration'')]"

definition media :: "pydict \<Rightarrow> pydict \<Rightarrow> pydict" where
  "media data payload =
     (let media_type = dict_get data ATTR_MEDIA_TYPE;
          media_url = dict_get data ATTR_MEDIA_URL
      in if truthy media_url \<and> truthy media_type \<and> media_type \<noteq> VStr ''none'' then
           if media_type = VStr ''image'' then payload(''image'' \<mapsto> media_url)
           else if media_type = VStr ''video'' then payload(''video'' \<mapsto> media_url)
           else payload
         else payload)"

definition build_notification_data :: "pydict \<Rightarrow> error + pydict" where
  "build_notification_data data =
     (let p1 = copy_simple_fields notification_simple_fields data Map.empty;
          p2 = copy_if_truthy ATTR_SMALL_ICON ''smallIcon'' data p1
      in case copy_color ATTR_SMALL_ICON_COLOR ''smallIconColor'' data p2 of
           Inl e \<Rightarrow> Inl e
         | Inr p3 \<Rightarrow>
             let p4 = copy_if_truthy ATTR_LARGE_ICON ''largeIcon'' data p3
             in Inr (media data p4))"

definition fixed_simple_fields :: "(string \<times> string) list" where
  "fixed_simple_fields =
     [(ATTR_ID, ''id''), (ATTR_VISIBLE, ''visible''), (ATTR_MESSAGE, ''message''),
      (ATTR_SHAPE, ''shape''), (ATTR_EXPIRATION, ''expiration'')]"

definition background :: "pydict \<Rightarrow> pydict \<Rightarrow> error + pydict" where
  "background data payload =
     (let bg_color = dict_get data ATTR_BACKGROUND_COLOR
      in if truthy bg_color then
           (case call_hex_with_alpha bg_color (dict_get data ATTR_BACKGROUND_OPACITY) of
              Inl e \<Rightarrow> Inl e
            | Inr r \<Rightarrow> Inr (payload(''backgroundColor'' \<mapsto> opt_val r)))
         else Inr payload)"

definition build_fixed_notification_data :: "pydict \<Rightarrow> error + pydict" where
  "build_fixed_notification_data data =
     (let p1 = copy_simple_fields fixed_simple_fields data Map.empty;
          p2 = copy_if_truthy ATTR_ICON ''icon'' data p1
      in case copy_color ATTR_MESSAGE_COLOR ''messageColor'' data p2 of
           Inl e \<Rightarrow> Inl e
         | Inr p3 \<Rightarrow>
             (case copy_color ATTR_ICON_COLOR ''iconColor'' data p3 of
                Inl e \<Rightarrow> Inl e
              | Inr p4 \<Rightarrow>
                  (case copy_color ATTR_BORDER_COLOR ''borderColor'' data p4 of
                     Inl e \<Rightarrow> Inl e
                   | Inr p5 \<Rightarrow> background data p5)))"

section \<open>The API client\<close>

text \<open>
  What one \<open>session.post\<close> meets: a timeout (\<open>asyncio.TimeoutError\<close>), a
  transport failure (\<open>aiohttp.ClientError\<close>, with its text), an exception of another
  class (with the name of the class), or a response with a status. The body of the
  response is read only afterwards, by \<open>response.text()\<close>, still inside the
  \<open>try\<close>. Reading it gives the text or fails in the same three ways; a body whose
  bytes cannot be decoded raises \<open>UnicodeDecodeError\<close>, which is of another class.
\<close>

datatype body_outcome = Body string | BodyTimeout | BodyClientError string | BodyRaises string

datatype post_outcome = Response int body_outcome | Timeout | ClientError string | Raises string

text \<open>The device and the network: the outcome of a POST of a JSON object to a URL.\<close>

type_synonym transport = "string \<Rightarrow> pydict \<Rightarrow> post_outcome"

record session =
  closed :: bool

text \<open>
  \<open>obj_id\<close> is the identity of the client object, which \<open>is\<close> compares.
\<close>

record TvOverlayApiClient =
  obj_id :: nat
  c_host :: string
  c_port :: int
  c_session :: "session option"

definition base_url :: "TvOverlayApiClient \<Rightarrow> string" where
  "base_url c = ''http://'' @ c_host c @ '':'' @ str_int (c_port c)"

datatype log_entry = ApiErrorLog int string | DeviceNotFoundLog

definition timeout_message :: "TvOverlayApiClient \<Rightarrow> string" where
  "timeout_message c = ''Timeout connecting to TvOverlay at '' @ c_host c @ '':'' @ str_int (c_port c)"

definition client_error_message :: "TvOverlayApiClient \<Rightarrow> string \<Rightarrow> string" where
  "client_error_message c err =
     ''Error connecting to TvOverlay at '' @ c_host c @ '':'' @ str_int (c_port c) @ '': '' @ err"

text \<open>
  The body of \<open>async with session.post(...) as response\<close> together with the two
  \<open>except\<close> clauses: the log lines written and the value returned or exception
  raised. The two clauses catch timeouts and transport failures; any other exception
  passes through them.
\<close>

definition on_response :: "TvOverlayApiClient \<Rightarrow> post_outcome \<Rightarrow> log_entry list \<times> (error + bool)" where
  "on_response c outcome =
     (case outcome of
        Response status body \<Rightarrow>
          if status = 200 then ([], Inr True)
          else
            (case body of
               Body text \<Rightarrow> ([ApiErrorLog status text], Inr False)
             | BodyTimeout \<Rightarrow> ([], Inl (TvOverlayConnectionError (timeout_message c)))
             | BodyClientError err \<Rightarrow> ([], Inl (TvOverlayConnectionError (client_error_message c err)))
             | BodyRaises x \<Rightarrow> ([], Inl (Uncaught x)))
      | Timeout \<Rightarrow> ([], Inl (TvOverlayConnectionError (timeout_message c)))
      | ClientError err \<Rightarrow> ([], Inl (TvOverlayConnectionError (client_error_message c err)))
      | Raises x \<Rightarrow> ([], Inl (Uncaught x)))"

text \<open>
  \<open>_request(self, endpoint, data=None)\<close>. Without a usable session a scoped one
  is opened for the call; the request and the handling of its outcome are the same in
  both branches.
\<close>

definition request ::
  "TvOverlayApiClient \<Rightarrow> transport \<Rightarrow> string \<Rightarrow> pydict option \<Rightarrow> log_entry list \<times> (error + bool)" where
  "request c net endpoint data =
     (let url = base_url c @ endpoint;
          json = (case data of None \<Rightarrow> Map.empty | Some d \<Rightarrow> d)
      in if (case c_session c of None \<Rightarrow> True | Some s \<Rightarrow> closed s)
         then on_response c (net url json)
         else on_response c (net url json))"

text \<open>\<open>test_connection\<close> catches \<open>TvOverlayConnectionError\<close> and nothing else.\<close>

definition test_connection ::
  "constants \<Rightarrow> TvOverlayApiClient \<Rightarrow> transport \<Rightarrow> log_entry list \<times> (error + bool)" where
  "test_connection K c net =
     (case request c net (ENDPOINT_NOTIFY K) (Some Map.empty) of
        (logged, Inl (TvOverlayConnectionError m)) \<Rightarrow> (logged, Inr False)
      | r \<Rightarrow> r)"

definition send_notification ::
  "constants \<Rightarrow> TvOverlayApiClient \<Rightarrow> transport \<Rightarrow> pydict \<Rightarrow> log_entry list \<times> (error + bool)" where
  "send_notification K c net data = request c net (ENDPOINT_NOTIFY K) (Some data)"

definition send_fixed_notification ::
  "constants \<Rightarrow> TvOverlayApiClient \<Rightarrow> transport \<Rightarrow> pydict \<Rightarrow> log_entry list \<times> (error + bool)" where
  "send_fixed_notification K c net data = request c net (ENDPOINT_NOTIFY_FIXED K) (Some data)"

definition clear_fixed_notification ::
  "constants \<Rightarrow> TvOverlayApiClient \<Rightarrow> transport \<Rightarrow> string \<Rightarrow> log_entry list \<times> (error + bool)" where
  "clear_fixed_notification K c net notification_id =
     request c net (ENDPOINT_NOTIFY_FIXED K)
       (Some [''id'' \<mapsto> VStr notification_id, ''visible'' \<mapsto> VBool False])"


section \<open>The services and the registry of notification IDs\<close>

text \<open>
  One entry of \<open>hass.data[DOMAIN]\<close>. \<open>store\<close> is what was last saved under
  \<open>"ids"\<close> (nothing before the first save); \<open>updates\<close> counts the rounds in which
  the update listeners were called.
\<close>

record entry_data =
  client :: TvOverlayApiClient
  name :: string
  host :: string
  port :: int
  store :: "string list option"
  notification_ids :: "string list"
  updates :: nat

text \<open>
  What the services see of Home Assistant: \<open>hass.data[DOMAIN]\<close>, a dictionary in
  insertion order from entry IDs to entries, and the device registry, which gives the
  identifiers (pairs of a domain and an ID) of a device.
\<close>

record hass =
  domain_data :: "(string \<times> entry_data) list"
  devices :: "string \<rightharpoonup> (string \<times> string) list"

definition registry :: "hass \<Rightarrow> nat \<Rightarrow> string list" where
  "registry h i = notification_ids (snd (domain_data h ! i))"

fun first_entry_client :: "constants \<Rightarrow> hass \<Rightarrow> (string \<times> string) list \<Rightarrow> TvOverlayApiClient option" where
  "first_entry_client K h [] = None"
| "first_entry_client K h (identifier # rest) =
     (if fst identifier = DOMAIN K then
        (case map_of (domain_data h) (snd identifier) of
           Some e \<Rightarrow> Some (client e)
         | None \<Rightarrow> first_entry_client K h rest)
      else first_entry_client K h rest)"

definition get_client_from_device_id :: "constants \<Rightarrow> hass \<Rightarrow> string \<Rightarrow> TvOverlayApiClient option" where
  "get_client_from_device_id K h device_id =
     (case devices h device_id of
        None \<Rightarrow> None
      | Some identifiers \<Rightarrow> first_entry_client K h identifiers)"

definition get_client_from_name_or_host :: "hass \<Rightarrow> string \<Rightarrow> TvOverlayApiClient option" where
  "get_client_from_name_or_host h name_or_host =
     (case find (\<lambda>e. name e = name_or_host \<or> host e = name_or_host) (map snd (domain_data h)) of
        Some e \<Rightarrow> Some (client e)
      | None \<Rightarrow> None)"

text \<open>A client made during a call is a new object: its identity is that of no entry's client.\<close>

definition fresh_obj_id :: "hass \<Rightarrow> nat" where
  "fresh_obj_id h = Suc (fold max (map (\<lambda>e. obj_id (client (snd e))) (domain_data h)) 0)"

definition get_client :: "constants \<Rightarrow> hass \<Rightarrow> pydict \<Rightarrow> TvOverlayApiClient option" where
  "get_client K h call_data =
     (let by_device_id =
            (case str_get call_data ATTR_DEVICE_ID of
               None \<Rightarrow> None
             | Some device_id \<Rightarrow>
                 if device_id = [] then None
                 else
                   (case get_client_from_device_id K h device_id of
                      Some c \<Rightarrow> Some c
                    | None \<Rightarrow> get_client_from_name_or_host h device_id))
      in case by_device_id of
           Some c \<Rightarrow> Some c
         | None \<Rightarrow>
             (case str_get call_data ATTR_HOST of
                None \<Rightarrow> None
              | Some host_string \<Rightarrow>
                  if host_string = [] then None
                  else
                    let parsed = parse_host_port K host_string
                    in (case find (\<lambda>e. host e = fst parsed \<and> port e = snd parsed)
                                  (map snd (domain_data h)) of
                          Some e \<Rightarrow> Some (client e)
                        | None \<Rightarrow>
                            Some \<lparr>obj_id = fresh_obj_id h, c_host = fst parsed, c_port = snd parsed,
                                  c_session = Some \<lparr>closed = False\<rparr>\<rparr>)))"

text \<open>
  \<open>_get_entry_data_from_client\<close>: the first entry whose client is the given object,
  as its position in \<open>hass.data[DOMAIN]\<close>.
\<close>

definition get_entry_data_from_client :: "hass \<Rightarrow> TvOverlayApiClient \<Rightarrow> nat option" where
  "get_entry_data_from_client h c =
     find (\<lambda>i. obj_id (client (snd (domain_data h ! i))) = obj_id c) [0..<length (domain_data h)]"

definition update_entry :: "hass \<Rightarrow> nat \<Rightarrow> (entry_data \<Rightarrow> entry_data) \<Rightarrow> hass" where
  "update_entry h i f =
     h\<lparr>domain_data := (domain_data h)[i := (fst (domain_data h ! i), f (snd (domain_data h ! i)))]\<rparr>"

definition add_notification_id :: "hass \<Rightarrow> nat \<Rightarrow> string \<Rightarrow> hass" where
  "add_notification_id h i notification_id =
     (let ids = registry h i
      in if notification_id \<notin> set ids then
           update_entry h i (\<lambda>e. e\<lparr>notification_ids := ids @ [notification_id],
                                    store := Some (ids @ [notification_id]),
                                    updates := Suc (updates e)\<rparr>)
         else h)"

text \<open>\<open>ids.remove(x)\<close> removes the first occurrence of \<open>x\<close>.\<close>

definition remove_notification_id :: "hass \<Rightarrow> nat \<Rightarrow> string \<Rightarrow> hass" where
  "remove_notification_id h i notification_id =
     (let ids = registry h i
      in if notification_id \<in> set ids then
           update_entry h i (\<lambda>e. e\<lparr>notification_ids := remove1 notification_id ids,
                                    store := Some (remove1 notification_id ids),
                                    updates := Suc (updates e)\<rparr>)
         else h)"

text \<open>
  The handlers. Each returns the state it leaves behind, or the exception that
  escapes it; an exception escapes before any change to the state. A call whose target
  is not found logs an error and returns.
\<close>

definition async_notify :: "constants \<Rightarrow> hass \<Rightarrow> pydict \<Rightarrow> transport \<Rightarrow> error + hass" where
  "async_notify K h call_data net =
     (case get_client K h call_data of
        None \<Rightarrow> Inr h
      | Some c \<Rightarrow>
          (case build_notification_data call_data of
             Inl e \<Rightarrow> Inl e
           | Inr payload \<Rightarrow>
               (case snd (send_notification K c net payload) of
                  Inl e \<Rightarrow> Inl e
                | Inr success \<Rightarrow> Inr h)))"

definition async_notify_fixed :: "constants \<Rightarrow> hass \<Rightarrow> pydict \<Rightarrow> transport \<Rightarrow> error + hass" where
  "async_notify_fixed K h call_data net =
     (case get_client K h call_data of
        None \<Rightarrow> Inr h
      | Some c \<Rightarrow>
          (case build_fixed_notification_data call_data of
             Inl e \<Rightarrow> Inl e
           | Inr payload \<Rightarrow>
               (case snd (send_fixed_notification K c net payload) of
                  Inl e \<Rightarrow> Inl e
                | Inr success \<Rightarrow>
                    (case str_get payload ''id'' of
                       None \<Rightarrow> Inr h
                     | Some notification_id \<Rightarrow>
                         if success \<and> notification_id \<noteq> [] then
                           (case get_entry_data_from_client h c of
                              None \<Rightarrow> Inr h
                            | Some i \<Rightarrow> Inr (add_notification_id h i notification_id))
                         else Inr h))))"

definition async_clear_fixed :: "constants \<Rightarrow> hass \<Rightarrow> pydict \<Rightarrow> transport \<Rightarrow> error + hass" where
  "async_clear_fixed K h call_data net =
     (case get_client K h call_data of
        None \<Rightarrow> Inr h
      | Some c \<Rightarrow>
          (case str_get call_data ATTR_ID of
             None \<Rightarrow> Inl KeyError
           | Some notification_id \<Rightarrow>
               (case snd (clear_fixed_notification K c net notification_id) of
                  Inl e \<Rightarrow> Inl e
                | Inr success \<Rightarrow>
                    if success then
                      (case get_entry_data_from_client h c of
                         None \<Rightarrow> Inr h
                       | Some i \<Rightarrow> Inr (remove_notification_id h i notification_id))
                    else Inr h)))"

text \<open>
  A service call: the service, the call data and what the network does to the one
  request the call makes. \<open>step\<close> is the state after the call, raised exception or not.
\<close>

datatype service_call =
    CallNotify pydict transport
  | CallNotifyFixed pydict transport
  | CallClearFixed pydict transport

fun handle :: "constants \<Rightarrow> hass \<Rightarrow> service_call \<Rightarrow> error + hass" where
  "handle K h (CallNotify call_data net) = async_notify K h call_data net"
| "handle K h (CallNotifyFixed call_data net) = async_notify_fixed K h call_data net"
| "handle K h (CallClearFixed call_data net) = async_clear_fixed K h call_data net"

definition step :: "constants \<Rightarrow> hass \<Rightarrow> service_call \<Rightarrow> hass" where
  "step K h op = (case handle K h op of Inl e \<Rightarrow> h | Inr h' \<Rightarrow> h')"

definition run :: "constants \<Rightarrow> hass \<Rightarrow> service_call list \<Rightarrow> hass" where
  "run K h ops = foldl (step K) h ops"

text \<open>
  The words of the registry invariant. A call is a successful create of the ID \<open>x\<close>
  on the configured device \<open>i\<close> when it is a \<open>notify_fixed\<close> call with the non-empty
  ID \<open>x\<close> whose target is the client of entry \<open>i\<close> and whose request returned true;
  a successful clear likewise, for a \<open>clear_fixed\<close> call.
\<close>

datatype event = Created nat string | Cleared nat string

definition target_entry :: "constants \<Rightarrow> hass \<Rightarrow> pydict \<Rightarrow> (TvOverlayApiClient \<times> nat) option" where
  "target_entry K h call_data =
     (case get_client K h call_data of
        None \<Rightarrow> None
      | Some c \<Rightarrow> (case get_entry_data_from_client h c of None \<Rightarrow> None | Some i \<Rightarrow> Some (c, i)))"

fun call_event :: "constants \<Rightarrow> hass \<Rightarrow> service_call \<Rightarrow> event option" where
  "call_event K h (CallNotify call_data net) = None"
| "call_event K h (CallNotifyFixed call_data net) =
     (case (target_entry K h call_data, str_get call_data ATTR_ID, build_fixed_notification_data call_data) of
        (Some (c, i), Some x, Inr payload) \<Rightarrow>
          if x \<noteq> [] \<and> snd (send_fixed_notification K c net payload) = Inr True
          then Some (Created i x) else None
      | _ \<Rightarrow> None)"
| "call_event K h (CallClearFixed call_data net) =
     (case (target_entry K h call_data, str_get call_data ATTR_ID) of
        (Some (c, i), Some x) \<Rightarrow>
          if snd (clear_fixed_notification K c net x) = Inr True
          then Some (Cleared i x) else None
      | _ \<Rightarrow> None)"

text \<open>
  Whether the last successful operation on the ID \<open>x\<close> of device \<open>i\<close> in a sequence
  of calls was a create; \<open>b\<close> is the answer when there was none.
\<close>

fun last_was_create :: "constants \<Rightarrow> hass \<Rightarrow> service_call list \<Rightarrow> nat \<Rightarrow> string \<Rightarrow> bool \<Rightarrow> bool" where
  "last_was_create K h [] i x b = b"
| "last_was_create K h (op # ops) i x b =
     last_was_create K (step K h op) ops i x
       (if call_event K h op = Some (Created i x) then True
        else if call_event K h op = Some (Cleared i x) then False
        else b)"

definition all_distinct :: "hass \<Rightarrow> bool" where
  "all_distinct h = list_all (\<lambda>e. distinct (notification_ids (snd e))) (domain_data h)"



text \<open>A field of the caller's input is absent or null.\<close>

definition absent :: "pydict \<Rightarrow> string \<Rightarrow> bool" where
  "absent d attr = (d attr = None \<or> d attr = Some VNone)"

text \<open>Each key of the notification payload with each field of the input it is built from.\<close>

definition notification_sources :: "(string \<times> string) list" where
  "notification_sources =
     [(''id'', ATTR_ID), (''title'', ATTR_TITLE), (''message'', ATTR_MESSAGE),
      (''source'', ATTR_SOURCE), (''corner'', ATTR_CORNER), (''duration'', ATTR_DURATION),
      (''smallIcon'', ATTR_SMALL_ICON), (''smallIconColor'', ATTR_SMALL_ICON_COLOR),
      (''largeIcon'', ATTR_LARGE_ICON),
      (''image'', ATTR_MEDIA_TYPE), (''image'', ATTR_MEDIA_URL),
      (''video'', ATTR_MEDIA_TYPE), (''video'', ATTR_MEDIA_URL)]"

definition fixed_sources :: "(string \<times> string) list" where
  "fixed_sources =
     [(''id'', ATTR_ID), (''visible'', ATTR_VISIBLE), (''message'', ATTR_MESSAGE),
      (''shape'', ATTR_SHAPE), (''expiration'', ATTR_EXPIRATION), (''icon'', ATTR_ICON),
      (''messageColor'', ATTR_MESSAGE_COLOR), (''iconColor'', ATTR_ICON_COLOR),
      (''borderColor'', ATTR_BORDER_COLOR), (''backgroundColor'', ATTR_BACKGROUND_COLOR)]"

section \<open>Characters and strings\<close>

lemma upper_lower_char [simp]: "upper_char (lower_char c) = upper_char c"
  by (auto simp: upper_char_def lower_char_def Let_def)

lemma lower_upper_char [simp]: "lower_char (upper_char c) = lower_char c"
  by (auto simp: upper_char_def lower_char_def Let_def)

lemma upper_upper_char [simp]: "upper_char (upper_char c) = upper_char c"
  by (auto simp: upper_char_def Let_def)

lemma lower_lower_char [simp]: "lower_char (lower_char c) = lower_char c"
  by (auto simp: lower_char_def Let_def)

lemma is_space_lower_char [simp]: "is_space (lower_char c) = is_space c"
  by (auto simp: is_space_def lower_char_def Let_def)

lemma is_space_upper_char [simp]: "is_space (upper_char c) = is_space c"
  by (auto simp: is_space_def upper_char_def Let_def)

lemma hash_code: "(of_char CHR ''#'' :: nat) = 35"
  by simp

lemma lower_char_hash [simp]: "(lower_char c = CHR ''#'') = (c = CHR ''#'')"
proof -
  have "of_char (lower_char c) = (35::nat) \<longleftrightarrow> of_char c = (35::nat)"
    by (auto simp: lower_char_def Let_def)
  then show ?thesis
    by (metis hash_code of_char_eq_iff)
qed

lemma upper_char_hash [simp]: "(upper_char c = CHR ''#'') = (c = CHR ''#'')"
proof -
  have "of_char (upper_char c) = (35::nat) \<longleftrightarrow> of_char c = (35::nat)"
    by (auto simp: upper_char_def Let_def)
  then show ?thesis
    by (metis hash_code of_char_eq_iff)
qed

lemma upper_char_hash_fixed [simp]: "upper_char CHR ''#'' = CHR ''#''"
  by (simp add: upper_char_def)

lemma not_space_hash [simp]: "\<not> is_space CHR ''#''"
  by (simp add: is_space_def)

















lemma digit_char_hex: "d < 16 \<Longrightarrow> is_upper_hex (digit_char d)"
  by (auto simp: digit_char_def is_upper_hex_def Let_def)







lemma hex_with_alpha_Some:
  assumes "normalize_hex_color (Some c) = Some n"
  shows "hex_with_alpha (Some c) p =
     (if length (lstrip_hash n) = 6
      then Some (CHR ''#'' # format_02X (int_truediv_100 ((case p of None \<Rightarrow> 40 | Some q \<Rightarrow> q) * 255)) @ lstrip_hash n)
      else Some n)"
proof -
  from assms have "c \<noteq> []"
    by (auto simp: normalize_hex_color_def)
  with assms show ?thesis
    by (simp add: hex_with_alpha_def Let_def)
qed

lemma hex_with_alpha_None:
  "normalize_hex_color x = None \<Longrightarrow> hex_with_alpha x p = None"
  by (cases x) (auto simp: hex_with_alpha_def)



section \<open>Color normalization\<close>



















section \<open>Alpha compositing\<close>

lemma digit_char_zero: "digit_char 0 = CHR ''0''"
  by code_simp

lemma digits_base_small: "n < 16 \<Longrightarrow> digits_base 16 n = [digit_char n]"
  by (subst digits_base.simps) simp

lemma digits_base_byte: "16 \<le> n \<Longrightarrow> n < 256 \<Longrightarrow> digits_base 16 n = [digit_char (n div 16), digit_char (n mod 16)]"
proof -
  assume n: "16 \<le> n" "n < 256"
  then have "n div 16 < 16" by simp
  then have "digits_base 16 (n div 16) = [digit_char (n div 16)]" by (rule digits_base_small)
  with n show ?thesis by (subst digits_base.simps) simp
qed

lemma format_02X_byte:
  assumes "0 \<le> a" "a \<le> 255"
  shows "format_02X a = [digit_char (nat a div 16), digit_char (nat a mod 16)]"
proof (cases "nat a < 16")
  case True
  then have "digits_base 16 (nat a) = [digit_char (nat a)]" by (rule digits_base_small)
  with True assms show ?thesis
    by (simp add: format_02X_def zfill_def digit_char_zero)
next
  case False
  with assms have "digits_base 16 (nat a) = [digit_char (nat a div 16), digit_char (nat a mod 16)]"
    by (intro digits_base_byte) auto
  with assms show ?thesis
    by (simp add: format_02X_def zfill_def)
qed

lemma is_rrggbb_lstrip:
  assumes "is_rrggbb n"
  shows "lstrip_hash n = tl n" and "length (lstrip_hash n) = 6"
proof -
  from assms obtain rgb where n: "n = CHR ''#'' # rgb" "length rgb = 6" "list_all is_upper_hex rgb"
    by (cases n) (auto simp: is_rrggbb_def)
  then obtain x xs where rgb: "rgb = x # xs" by (cases rgb) auto
  with n(3) have "x \<noteq> CHR ''#''"
    by (auto simp: is_upper_hex_def)
  with n rgb show "lstrip_hash n = tl n" and "length (lstrip_hash n) = 6"
    by (simp_all add: lstrip_hash_def)
qed

lemma int_truediv_100_small:
  assumes "0 \<le> x" "x < 2 ^ 53"
  shows "int_truediv_100 x = x div 100"
proof -
  have "nat \<bar>x\<bar> < 2 ^ 53"
    using assms by (simp add: nat_less_iff)
  moreover have "int (nat \<bar>x\<bar> div 100) = x div 100"
    using assms(1) by (simp add: zdiv_int)
  ultimately show ?thesis
    using assms(1) by (simp add: int_truediv_100_def Let_def)
qed

lemma alpha_range:
  assumes "0 \<le> p" "p \<le> 100"
  shows "int_truediv_100 (p * 255) = p * 255 div 100" and "0 \<le> p * 255 div 100" and "p * 255 div 100 \<le> 255"
proof -
  have "p * 255 \<le> 25500" using assms(2) by simp
  also have "(25500::int) < 2 ^ 53" by simp
  finally show "int_truediv_100 (p * 255) = p * 255 div 100"
    using assms(1) by (intro int_truediv_100_small) simp_all
  show "0 \<le> p * 255 div 100" and "p * 255 div 100 \<le> 255"
    using assms by simp_all
qed

lemma hex_with_alpha_rrggbb:
  assumes "normalize_hex_color (Some c) = Some n" and "is_rrggbb n" and "0 \<le> p" and "p \<le> 100"
  shows "hex_with_alpha (Some c) (Some p) = Some (CHR ''#'' # format_02X (p * 255 div 100) @ tl n)"
    and "hex_with_alpha (Some c) None = Some (CHR ''#'' # CHR ''6'' # CHR ''6'' # tl n)"
proof -
  define a where "a = p * 255 div 100"
  note ls = is_rrggbb_lstrip [OF assms(2)]
  have ar: "int_truediv_100 (p * 255) = a"
    unfolding a_def using assms(3,4) by (rule alpha_range(1))
  have "hex_with_alpha (Some c) (Some p) = Some (CHR ''#'' # format_02X a @ lstrip_hash n)"
    by (simp only: hex_with_alpha_Some [OF assms(1)] ls(2) ar option.case if_True simp_thms)
  then show "hex_with_alpha (Some c) (Some p) = Some (CHR ''#'' # format_02X (p * 255 div 100) @ tl n)"
    unfolding a_def by (simp only: ls(1))
  have g: "int_truediv_100 (40 * 255) = 102"
    using alpha_range(1) [of 40] by simp
  have "format_02X 102 = ''66''" by code_simp
  moreover have "hex_with_alpha (Some c) None = Some (CHR ''#'' # format_02X 102 @ lstrip_hash n)"
    by (simp only: hex_with_alpha_Some [OF assms(1)] ls(2) g option.case if_True simp_thms)
  ultimately show "hex_with_alpha (Some c) None = Some (CHR ''#'' # CHR ''6'' # CHR ''6'' # tl n)"
    by (simp add: ls(1))
qed

text \<open>
  Claim C3, as amended. For a color whose normalized form is \<open>#RRGGBB\<close> and an
  opacity from 0 to 100, the result is \<open>#AARRGGBB\<close>, where \<open>AA\<close> are the two
  upper-case hexadecimal digits of \<open>opacity * 255 / 100\<close> rounded down; without an
  opacity, 40 is used and \<open>AA\<close> is \<open>66\<close>.
\<close>

theorem hex_with_alpha_truncates:
  assumes "normalize_hex_color (Some c) = Some n" and "is_rrggbb n" and "0 \<le> p" and "p \<le> 100"
  shows "hex_with_alpha (Some c) (Some p) =
           Some (CHR ''#'' # digit_char (nat (p * 255 div 100) div 16)
                          # digit_char (nat (p * 255 div 100) mod 16) # tl n)
       \<and> hex_with_alpha (Some c) None = Some (CHR ''#'' # CHR ''6'' # CHR ''6'' # tl n)
       \<and> is_upper_hex (digit_char (nat (p * 255 div 100) div 16))
       \<and> is_upper_hex (digit_char (nat (p * 255 div 100) mod 16))
       \<and> p * 255 div 100 = \<lfloor>real_of_int p * 255 / 100\<rfloor>"
proof -
  define a where "a = p * 255 div 100"
  note ls = is_rrggbb_lstrip [OF assms(2)]
  have ar: "int_truediv_100 (p * 255) = a" "0 \<le> a" "a \<le> 255"
    unfolding a_def using assms(3,4) by (rule alpha_range)+
  have f: "format_02X a = [digit_char (nat a div 16), digit_char (nat a mod 16)]"
    using ar(2,3) by (rule format_02X_byte)
  have "hex_with_alpha (Some c) (Some p) = Some (CHR ''#'' # format_02X a @ lstrip_hash n)"
    by (simp only: hex_with_alpha_Some [OF assms(1)] ls(2) ar(1) option.case if_True simp_thms)
  then have "hex_with_alpha (Some c) (Some p) = Some (CHR ''#'' # format_02X a @ tl n)"
    by (simp only: ls(1))
  then have r1: "hex_with_alpha (Some c) (Some p) =
      Some (CHR ''#'' # digit_char (nat a div 16) # digit_char (nat a mod 16) # tl n)"
    by (simp only: f append.simps)
  have g: "int_truediv_100 (40 * 255) = 102"
    using alpha_range(1) [of 40] by simp
  have "format_02X 102 = ''66''" by code_simp
  moreover have "hex_with_alpha (Some c) None = Some (CHR ''#'' # format_02X 102 @ lstrip_hash n)"
    by (simp only: hex_with_alpha_Some [OF assms(1)] ls(2) g option.case if_True simp_thms)
  ultimately have r2: "hex_with_alpha (Some c) None = Some (CHR ''#'' # CHR ''6'' # CHR ''6'' # tl n)"
    by (simp add: ls(1))
  have "nat a div 16 < 16" "nat a mod 16 < 16"
    using ar(2,3) by auto
  then have d: "is_upper_hex (digit_char (nat a div 16))" "is_upper_hex (digit_char (nat a mod 16))"
    by (auto intro: digit_char_hex)
  have "\<lfloor>real_of_int (p * 255) / real_of_int 100\<rfloor> = p * 255 div 100"
    by (rule floor_divide_of_int_eq)
  then have e: "a = \<lfloor>real_of_int p * 255 / 100\<rfloor>"
    by (simp add: a_def)
  from r1 r2 d e show ?thesis unfolding a_def by blast
qed

text \<open>
  The statement of C3 at the two examples of the claim: \<open>#FF0000\<close> at opacity 50 and
  without an opacity.
\<close>

theorem hex_with_alpha_truncates_witness:
  "hex_with_alpha (Some ''#FF0000'') (Some 50) = Some ''#7FFF0000''
   \<and> hex_with_alpha (Some ''#FF0000'') None = Some ''#66FF0000''"
proof -
  have h1: "normalize_hex_color (Some ''#FF0000'') = Some ''#FF0000''" by code_simp
  have h2: "is_rrggbb ''#FF0000''" by code_simp
  have h3: "(0::int) \<le> 50" "(50::int) \<le> 100" by simp_all
  have e: "digit_char 7 = CHR ''7''" "digit_char 15 = CHR ''F''"
    by code_simp+
  from hex_with_alpha_truncates [OF h1 h2 h3] show ?thesis
    by (simp add: e)
qed

text \<open>
  Claim C3 as written takes the alpha byte to be \<open>round(opacity * 255 / 100)\<close>. At
  opacity 1 the quotient is 2.55: rounding gives 3 and the digits \<open>03\<close>, the code
  gives \<open>02\<close>.
\<close>

theorem hex_with_alpha_not_rounded:
  "normalize_hex_color (Some ''#FF0000'') = Some ''#FF0000'' \<and> is_rrggbb ''#FF0000''
   \<and> hex_with_alpha (Some ''#FF0000'') (Some 1) = Some ''#02FF0000''
   \<and> CHR ''#'' # format_02X (spec_round_alpha 1) @ ''FF0000'' = ''#03FF0000''"
proof -
  have a: "spec_round_alpha 1 = 3"
    by (simp add: spec_round_alpha_def round_def)
  have b: "format_02X 3 = ''03''" by code_simp
  have d: "normalize_hex_color (Some ''#FF0000'') = Some ''#FF0000''" by code_simp
  have e: "is_rrggbb ''#FF0000''" by code_simp
  have f: "format_02X 2 = ''02''" by code_simp
  have "hex_with_alpha (Some ''#FF0000'') (Some 1)
          = Some (CHR ''#'' # format_02X (1 * 255 div 100) @ tl ''#FF0000'')"
    using d e by (rule hex_with_alpha_rrggbb) simp_all
  then have c: "hex_with_alpha (Some ''#FF0000'') (Some 1) = Some ''#02FF0000''"
    by (simp add: f)
  from a b c d e show ?thesis by simp
qed








section \<open>Parsing a host and a port\<close>

lemma rsplit_colon_last:
  assumes "CHR '':'' \<notin> set suf"
  shows "rsplit_colon (pre @ CHR '':'' # suf) = (pre, suf)"
proof -
  have "rev (pre @ CHR '':'' # suf) = rev suf @ CHR '':'' # rev pre" by simp
  moreover have "takeWhile (\<lambda>c. c \<noteq> CHR '':'') (rev suf @ CHR '':'' # rev pre) = rev suf"
    using assms by (auto simp: takeWhile_tail)
  ultimately have "rev (takeWhile (\<lambda>c. c \<noteq> CHR '':'') (rev (pre @ CHR '':'' # suf))) = suf"
    by simp
  then show ?thesis
    by (simp add: rsplit_colon_def Let_def)
qed

lemma is_digit_props:
  "is_digit c \<Longrightarrow> \<not> is_c_space c \<and> c \<noteq> CHR ''-'' \<and> c \<noteq> CHR ''+'' \<and> c \<noteq> CHR '':'' \<and> (of_char c :: nat) < 128"
  by (auto simp: is_digit_def is_c_space_def Let_def)

lemma digits_ok_digits: "list_all is_digit ds \<Longrightarrow> digits_ok prev ds = (ds \<noteq> [] \<or> prev)"
  by (induction ds arbitrary: prev) simp_all

lemma digits_ok_bad:
  "c \<in> set body \<Longrightarrow> \<not> is_digit c \<Longrightarrow> c \<noteq> CHR ''_'' \<Longrightarrow> \<not> digits_ok prev body"
  by (induction body arbitrary: prev) auto

lemma dropWhile_keeps: "c \<in> set xs \<Longrightarrow> \<not> P c \<Longrightarrow> c \<in> set (dropWhile P xs)"
  by (induction xs) auto

lemma ascii_int_digits:
  assumes "ds \<noteq> []" "list_all is_digit ds" "length ds \<le> 4300"
  shows "ascii_int ds = Some (int (digits_value ds))"
proof -
  have d: "is_digit (hd ds)" "is_digit (last ds)"
    using assms(1,2) by (simp_all add: list_all_iff)
  have "dropWhile is_c_space ds = ds"
    using d(1) by (simp add: dropWhile_eq_self_iff is_digit_props)
  moreover have "dropWhile is_c_space (rev ds) = rev ds"
    using d(2) assms(1) by (simp add: dropWhile_eq_self_iff is_digit_props hd_rev)
  ultimately have t: "rev (dropWhile is_c_space (rev (dropWhile is_c_space ds))) = ds"
    by simp
  obtain c r where cr: "ds = c # r"
    using assms(1) by (cases ds) auto
  with d(1) have s: "c \<noteq> CHR ''-''" "c \<noteq> CHR ''+''"
    by (auto dest: is_digit_props)
  have f: "filter is_digit ds = ds"
    using assms(2) by (simp add: list_all_iff)
  have ok: "digits_ok False ds"
    using assms(1,2) by (simp add: digits_ok_digits)
  have body: "(case ds of [] \<Rightarrow> [] | c # r \<Rightarrow> if c = CHR ''-'' \<or> c = CHR ''+'' then r else ds) = ds"
    using s by (simp add: cr)
  have neg: "(case ds of [] \<Rightarrow> False | c # _ \<Rightarrow> c = CHR ''-'') = False"
    using s by (simp add: cr)
  show ?thesis
    unfolding ascii_int_def t Let_def body neg
    using ok assms(3) by (simp add: f)
qed

lemma ascii_int_bad:
  assumes "c \<in> set w" "\<not> is_digit c" "\<not> is_c_space c"
    and "c \<noteq> CHR ''+''" "c \<noteq> CHR ''-''" "c \<noteq> CHR ''_''"
  shows "ascii_int w = None"
proof -
  define t where "t = rev (dropWhile is_c_space (rev (dropWhile is_c_space w)))"
  define body where "body = (case t of [] \<Rightarrow> [] | c # r \<Rightarrow> if c = CHR ''-'' \<or> c = CHR ''+'' then r else t)"
  have "c \<in> set (dropWhile is_c_space w)"
    using assms(1,3) by (rule dropWhile_keeps)
  then have "c \<in> set (rev (dropWhile is_c_space w))" by simp
  then have "c \<in> set (dropWhile is_c_space (rev (dropWhile is_c_space w)))"
    using assms(3) by (rule dropWhile_keeps)
  then have "c \<in> set t" by (simp add: t_def)
  then have "c \<in> set body"
    using assms(4,5) by (cases t) (auto simp: body_def)
  then have "\<not> digits_ok False body"
    using assms(2,6) by (rule digits_ok_bad)
  then show ?thesis
    by (simp add: ascii_int_def Let_def t_def [symmetric] body_def [symmetric])
qed

lemma ascii_digits: "list_all is_digit ds \<Longrightarrow> ascii ds"
  by (auto simp: ascii_def list_all_iff dest: is_digit_props)

text \<open>
  Claim C9. \<open>parse_host_port\<close> has a value for every string. Without a colon it
  is the string and the default port; when the text after the last colon parses as an
  integer it is the text before that colon and the integer; when it does not, it is the
  whole string, colon included, and the default port. What parses is what \<open>int\<close>
  accepts: in particular a non-empty string of at most 4300 decimal digits does, with
  its decimal value, and an ASCII string with a character that is not a digit, a sign, an
  underscore or one of the six whitespace characters does not.
\<close>

theorem parse_host_port_cases:
  "(CHR '':'' \<notin> set s \<longrightarrow> parse_host_port K s = (s, DEFAULT_PORT K))
   \<and> (CHR '':'' \<notin> set suf \<and> py_int K suf = Some p \<longrightarrow>
         parse_host_port K (pre @ CHR '':'' # suf) = (pre, p))
   \<and> (CHR '':'' \<notin> set suf' \<and> py_int K suf' = None \<longrightarrow>
         parse_host_port K (pre' @ CHR '':'' # suf') = (pre' @ CHR '':'' # suf', DEFAULT_PORT K))
   \<and> (ds \<noteq> [] \<and> list_all is_digit ds \<and> length ds \<le> 4300 \<longrightarrow>
         py_int K ds = Some (int (digits_value ds))
         \<and> parse_host_port K (h @ CHR '':'' # ds) = (h, int (digits_value ds)))
   \<and> (ascii w \<and> CHR '':'' \<notin> set w
        \<and> (\<exists>c\<in>set w. \<not> is_digit c \<and> \<not> is_c_space c \<and> c \<noteq> CHR ''+'' \<and> c \<noteq> CHR ''-'' \<and> c \<noteq> CHR ''_'') \<longrightarrow>
         py_int K w = None
         \<and> parse_host_port K (h' @ CHR '':'' # w) = (h' @ CHR '':'' # w, DEFAULT_PORT K))"
proof -
  have a: "py_int K ds = Some (int (digits_value ds))
           \<and> parse_host_port K (h @ CHR '':'' # ds) = (h, int (digits_value ds))"
    if "ds \<noteq> []" "list_all is_digit ds" "length ds \<le> 4300"
  proof -
    have "py_int K ds = Some (int (digits_value ds))"
      using that by (simp add: py_int_def ascii_digits ascii_int_digits)
    moreover have "CHR '':'' \<notin> set ds"
      using that(2) by (auto simp: list_all_iff dest: is_digit_props)
    ultimately show ?thesis
      by (simp add: parse_host_port_def rsplit_colon_last)
  qed
  have b: "py_int K w = None
           \<and> parse_host_port K (h' @ CHR '':'' # w) = (h' @ CHR '':'' # w, DEFAULT_PORT K)"
    if "ascii w" "CHR '':'' \<notin> set w" "c \<in> set w" "\<not> is_digit c" "\<not> is_c_space c"
       "c \<noteq> CHR ''+''" "c \<noteq> CHR ''-''" "c \<noteq> CHR ''_''" for c
  proof -
    have "ascii_int w = None"
      using that(3-8) by (rule ascii_int_bad)
    then have "py_int K w = None"
      using that(1) by (simp add: py_int_def)
    then show ?thesis
      using that(2) by (simp add: parse_host_port_def rsplit_colon_last)
  qed
  from a b show ?thesis
    by (auto simp: parse_host_port_def rsplit_colon_last)
qed

text \<open>
  The statement of C9 at a host without a port, a host with a port, a string whose last
  colon is followed by a word, and a port followed by the control character 31, which
  \<open>int\<close> does not skip.
\<close>

theorem parse_host_port_cases_witness:
  "parse_host_port \<lparr>DEFAULT_PORT = 5001, DOMAIN = ''tvoverlay'', ENDPOINT_NOTIFY = ''/notify'',
                     ENDPOINT_NOTIFY_FIXED = ''/notify-fixed'', INT_NON_ASCII = (\<lambda>s. None)\<rparr> ''tv.lan''
     = (''tv.lan'', 5001)
   \<and> parse_host_port \<lparr>DEFAULT_PORT = 5001, DOMAIN = ''tvoverlay'', ENDPOINT_NOTIFY = ''/notify'',
                     ENDPOINT_NOTIFY_FIXED = ''/notify-fixed'', INT_NON_ASCII = (\<lambda>s. None)\<rparr> ''tv.lan:80''
     = (''tv.lan'', 80)
   \<and> parse_host_port \<lparr>DEFAULT_PORT = 5001, DOMAIN = ''tvoverlay'', ENDPOINT_NOTIFY = ''/notify'',
                     ENDPOINT_NOTIFY_FIXED = ''/notify-fixed'', INT_NON_ASCII = (\<lambda>s. None)\<rparr> ''fe80::1:http''
     = (''fe80::1:http'', 5001)
   \<and> parse_host_port \<lparr>DEFAULT_PORT = 5001, DOMAIN = ''tvoverlay'', ENDPOINT_NOTIFY = ''/notify'',
                     ENDPOINT_NOTIFY_FIXED = ''/notify-fixed'', INT_NON_ASCII = (\<lambda>s. None)\<rparr>
        (''tv.lan:80'' @ [CHR 0x1F])
     = (''tv.lan:80'' @ [CHR 0x1F], 5001)"
proof -
  define K where "K = \<lparr>DEFAULT_PORT = 5001, DOMAIN = ''tvoverlay'', ENDPOINT_NOTIFY = ''/notify'',
                     ENDPOINT_NOTIFY_FIXED = ''/notify-fixed'', INT_NON_ASCII = (\<lambda>s. None)\<rparr>"
  have k: "DEFAULT_PORT K = 5001" by (simp add: K_def)
  have h1: "CHR '':'' \<notin> set ''tv.lan''" by simp
  have h2: "''80'' \<noteq> [] \<and> list_all is_digit ''80'' \<and> length ''80'' \<le> 4300"
    by (simp add: is_digit_def)
  have v: "digits_value ''80'' = 80"
    by (simp add: digits_value_def is_digit_def)
  have h3: "ascii ''http'' \<and> CHR '':'' \<notin> set ''http''
     \<and> (\<exists>c\<in>set ''http''. \<not> is_digit c \<and> \<not> is_c_space c \<and> c \<noteq> CHR ''+'' \<and> c \<noteq> CHR ''-'' \<and> c \<noteq> CHR ''_'')"
    by (simp add: ascii_def is_digit_def is_c_space_def)
  have h4: "ascii (''80'' @ [CHR 0x1F]) \<and> CHR '':'' \<notin> set (''80'' @ [CHR 0x1F])
     \<and> (\<exists>c\<in>set (''80'' @ [CHR 0x1F]). \<not> is_digit c \<and> \<not> is_c_space c \<and> c \<noteq> CHR ''+'' \<and> c \<noteq> CHR ''-'' \<and> c \<noteq> CHR ''_'')"
    by (simp add: ascii_def is_digit_def is_c_space_def)
  note t1 = parse_host_port_cases [of "''tv.lan''" K "[]" 0 "[]" "[]" "[]" "''80''" "''tv.lan''" "''http''" "''fe80::1''"]
  note t2 = parse_host_port_cases [of "''tv.lan''" K "[]" 0 "[]" "[]" "[]" "''80''" "''tv.lan''" "''80'' @ [CHR 0x1F]" "''tv.lan''"]
  have r1: "parse_host_port K ''tv.lan'' = (''tv.lan'', 5001)"
    using t1 [THEN conjunct1, THEN mp, OF h1] by (simp only: k)
  have r2: "parse_host_port K ''tv.lan:80'' = (''tv.lan'', 80)"
    using t1 [THEN conjunct2, THEN conjunct2, THEN conjunct2, THEN conjunct1, THEN mp, OF h2, THEN conjunct2]
    by (simp add: v)
  have r3: "parse_host_port K ''fe80::1:http'' = (''fe80::1:http'', 5001)"
    using t1 [THEN conjunct2, THEN conjunct2, THEN conjunct2, THEN conjunct2, THEN mp, OF h3, THEN conjunct2]
    by (simp add: k)
  have r4: "parse_host_port K (''tv.lan:80'' @ [CHR 0x1F]) = (''tv.lan:80'' @ [CHR 0x1F], 5001)"
    using t2 [THEN conjunct2, THEN conjunct2, THEN conjunct2, THEN conjunct2, THEN mp, OF h4, THEN conjunct2]
    by (simp add: k)
  from r1 r2 r3 r4 show ?thesis
    unfolding K_def by (intro conjI)
qed

section \<open>The request and the connection test\<close>

lemma digit_char_numerals:
  "digit_char 0 = CHR ''0''" "digit_char 1 = CHR ''1''" "digit_char 2 = CHR ''2''"
  "digit_char 3 = CHR ''3''" "digit_char 4 = CHR ''4''" "digit_char 5 = CHR ''5''"
  "digit_char 6 = CHR ''6''" "digit_char 7 = CHR ''7''" "digit_char 8 = CHR ''8''"
  "digit_char 9 = CHR ''9''" "digit_char (Suc 0) = CHR ''1''"
  by code_simp+

lemma request_eq:
  "request c net endpoint data =
     on_response c (net (base_url c @ endpoint) (case data of None \<Rightarrow> Map.empty | Some d \<Rightarrow> d))"
  by (simp add: request_def Let_def)

lemma on_response_cases:
  "snd (on_response c outcome) = Inr True \<longleftrightarrow> (\<exists>body. outcome = Response 200 body)"
  "snd (on_response c outcome) = Inr False \<longleftrightarrow>
     (\<exists>status text. outcome = Response status (Body text) \<and> status \<noteq> 200)"
  "(\<exists>m. snd (on_response c outcome) = Inl (TvOverlayConnectionError m)) \<longleftrightarrow>
     (outcome = Timeout \<or> (\<exists>err. outcome = ClientError err)
      \<or> (\<exists>status. status \<noteq> 200 \<and>
            (outcome = Response status BodyTimeout \<or> (\<exists>err. outcome = Response status (BodyClientError err)))))"
  "snd (on_response c outcome) = Inl (Uncaught x) \<longleftrightarrow>
     (outcome = Raises x \<or> (\<exists>status. status \<noteq> 200 \<and> outcome = Response status (BodyRaises x)))"
  by (auto simp: on_response_def split: post_outcome.splits body_outcome.splits)

lemma on_response_error:
  "snd (on_response c outcome) = Inl e \<Longrightarrow>
     e = TvOverlayConnectionError (timeout_message c)
     \<or> (\<exists>err. e = TvOverlayConnectionError (client_error_message c err))
     \<or> (\<exists>x. e = Uncaught x)"
  by (auto simp: on_response_def split: post_outcome.splits body_outcome.splits if_splits)

lemma connection_error_message:
  assumes "snd (on_response c outcome) = Inl (TvOverlayConnectionError m)"
  shows "\<exists>before after. m = before @ c_host c @ '':'' @ str_int (c_port c) @ after"
proof -
  from on_response_error [OF assms]
  consider "m = timeout_message c" | err where "m = client_error_message c err"
    by auto
  then show ?thesis
  proof cases
    case 1
    then have "m = ''Timeout connecting to TvOverlay at '' @ c_host c @ '':'' @ str_int (c_port c) @ []"
      by (simp add: timeout_message_def)
    then show ?thesis by blast
  next
    case 2
    then have "m = ''Error connecting to TvOverlay at '' @ c_host c @ '':'' @ str_int (c_port c) @ ('': '' @ err)"
      by (simp add: client_error_message_def)
    then show ?thesis by blast
  qed
qed

lemma on_response_values:
  "status \<noteq> 200 \<Longrightarrow> on_response c (Response status (Body text)) = ([ApiErrorLog status text], Inr False)"
  "on_response c Timeout = ([], Inl (TvOverlayConnectionError (timeout_message c)))"
  "on_response c (Raises x) = ([], Inl (Uncaught x))"
  "status \<noteq> 200 \<Longrightarrow> on_response c (Response status (BodyRaises x)) = ([], Inl (Uncaught x))"
  by (simp_all add: on_response_def)

text \<open>
  Claim C1, as amended. Let \<open>outcome\<close> be what the network does to the one POST of
  the call. \<open>request\<close> returns true exactly when the response has status 200. It
  returns false exactly when a response with another status has been received and its
  body read as text, and then it has logged the status and the body. It raises the
  connection error exactly when a timeout or a transport failure occurs, on the request
  or while the body of a non-200 response is read; the message of the error holds the
  host and the port, and for a timeout it is \<open>Timeout connecting to TvOverlay at
  host:port\<close>. An exception of any other class, on the request or while the body of a
  non-200 response is read, escapes unchanged; nothing else is raised.
\<close>

theorem request_result:
  assumes "net (base_url c @ endpoint) (case data of None \<Rightarrow> Map.empty | Some d \<Rightarrow> d) = outcome"
  shows
   "(snd (request c net endpoint data) = Inr True \<longleftrightarrow> (\<exists>body. outcome = Response 200 body))
    \<and> (snd (request c net endpoint data) = Inr False \<longleftrightarrow>
         (\<exists>status text. outcome = Response status (Body text) \<and> status \<noteq> 200))
    \<and> (outcome = Response status (Body b) \<and> status \<noteq> 200 \<longrightarrow>
         request c net endpoint data = ([ApiErrorLog status b], Inr False))
    \<and> ((\<exists>m. snd (request c net endpoint data) = Inl (TvOverlayConnectionError m)) \<longleftrightarrow>
         (outcome = Timeout \<or> (\<exists>err. outcome = ClientError err)
          \<or> (\<exists>st. st \<noteq> 200 \<and>
                (outcome = Response st BodyTimeout \<or> (\<exists>err. outcome = Response st (BodyClientError err))))))
    \<and> (snd (request c net endpoint data) = Inl (TvOverlayConnectionError m') \<longrightarrow>
         (\<exists>before after. m' = before @ c_host c @ '':'' @ str_int (c_port c) @ after))
    \<and> (outcome = Timeout \<longrightarrow>
         request c net endpoint data =
           ([], Inl (TvOverlayConnectionError
                       (''Timeout connecting to TvOverlay at '' @ c_host c @ '':'' @ str_int (c_port c)))))
    \<and> (snd (request c net endpoint data) = Inl (Uncaught x) \<longleftrightarrow>
         (outcome = Raises x \<or> (\<exists>st. st \<noteq> 200 \<and> outcome = Response st (BodyRaises x))))
    \<and> (snd (request c net endpoint data) = Inl e \<longrightarrow>
         (\<exists>m. e = TvOverlayConnectionError m) \<or> (\<exists>y. e = Uncaught y))"
proof -
  have r: "request c net endpoint data = on_response c outcome"
    by (simp add: request_eq assms)
  have 1: "snd (on_response c outcome) = Inr True \<longleftrightarrow> (\<exists>body. outcome = Response 200 body)"
    by (rule on_response_cases(1))
  have 2: "snd (on_response c outcome) = Inr False \<longleftrightarrow>
         (\<exists>status text. outcome = Response status (Body text) \<and> status \<noteq> 200)"
    by (rule on_response_cases(2))
  have 3: "outcome = Response status (Body b) \<and> status \<noteq> 200 \<longrightarrow>
         on_response c outcome = ([ApiErrorLog status b], Inr False)"
    by (simp add: on_response_values)
  have 4: "(\<exists>m. snd (on_response c outcome) = Inl (TvOverlayConnectionError m)) \<longleftrightarrow>
         (outcome = Timeout \<or> (\<exists>err. outcome = ClientError err)
          \<or> (\<exists>st. st \<noteq> 200 \<and>
                (outcome = Response st BodyTimeout \<or> (\<exists>err. outcome = Response st (BodyClientError err)))))"
    by (rule on_response_cases(3))
  have 5: "snd (on_response c outcome) = Inl (TvOverlayConnectionError m') \<longrightarrow>
         (\<exists>before after. m' = before @ c_host c @ '':'' @ str_int (c_port c) @ after)"
    by (intro impI connection_error_message)
  have 6: "outcome = Timeout \<longrightarrow>
         on_response c outcome =
           ([], Inl (TvOverlayConnectionError
                       (''Timeout connecting to TvOverlay at '' @ c_host c @ '':'' @ str_int (c_port c))))"
    by (simp add: on_response_values timeout_message_def)
  have 7: "snd (on_response c outcome) = Inl (Uncaught x) \<longleftrightarrow>
         (outcome = Raises x \<or> (\<exists>st. st \<noteq> 200 \<and> outcome = Response st (BodyRaises x)))"
    by (rule on_response_cases(4))
  have 8: "snd (on_response c outcome) = Inl e \<longrightarrow>
         (\<exists>m. e = TvOverlayConnectionError m) \<or> (\<exists>y. e = Uncaught y)"
    by (auto dest: on_response_error)
  show ?thesis
    unfolding r by (intro conjI 1 2 3 4 5 6 7 8)
qed

text \<open>
  The statement of C1 at a response with status 503 and at a timeout, for the device
  \<open>tv:5001\<close>.
\<close>

theorem request_result_witness:
  "request \<lparr>obj_id = 0, c_host = ''tv'', c_port = 5001, c_session = None\<rparr>
      (\<lambda>url json. Response 503 (Body ''busy'')) ''/notify'' None = ([ApiErrorLog 503 ''busy''], Inr False)
   \<and> request \<lparr>obj_id = 0, c_host = ''tv'', c_port = 5001, c_session = None\<rparr>
      (\<lambda>url json. Timeout) ''/notify'' None
       = ([], Inl (TvOverlayConnectionError ''Timeout connecting to TvOverlay at tv:5001''))"
proof -
  let ?c = "\<lparr>obj_id = 0, c_host = ''tv'', c_port = 5001, c_session = None\<rparr>"
  have h1: "(\<lambda>url json. Response 503 (Body ''busy''))
              (base_url ?c @ ''/notify'') (case None of None \<Rightarrow> Map.empty | Some d \<Rightarrow> d)
              = Response 503 (Body ''busy'')"
    by simp
  have h2: "(\<lambda>url json. Timeout)
              (base_url ?c @ ''/notify'') (case None of None \<Rightarrow> Map.empty | Some d \<Rightarrow> d)
              = Timeout"
    by simp
  have g1: "Response 503 (Body ''busy'') = Response 503 (Body ''busy'') \<and> (503::int) \<noteq> 200"
    by simp
  have s: "str_int 5001 = ''5001''"
    by (simp add: str_int_def digits_base.simps digit_char_numerals)
  note t1 = request_result [where status = 503 and b = "''busy''", OF h1]
  note t2 = request_result [OF h2]
  have a: "request ?c (\<lambda>url json. Response 503 (Body ''busy'')) ''/notify'' None
            = ([ApiErrorLog 503 ''busy''], Inr False)"
    by (rule t1 [THEN conjunct2, THEN conjunct2, THEN conjunct1, THEN mp, OF g1])
  have "request ?c (\<lambda>url json. Timeout) ''/notify'' None
            = ([], Inl (TvOverlayConnectionError
                 (''Timeout connecting to TvOverlay at '' @ c_host ?c @ '':'' @ str_int (c_port ?c))))"
    by (rule t2 [THEN conjunct2, THEN conjunct2, THEN conjunct2, THEN conjunct2, THEN conjunct2,
                 THEN conjunct1, THEN mp, OF refl])
  then have b: "request ?c (\<lambda>url json. Timeout) ''/notify'' None
       = ([], Inl (TvOverlayConnectionError ''Timeout connecting to TvOverlay at tv:5001''))"
    by (simp add: s)
  from a b show ?thesis by (rule conjI)
qed

text \<open>
  Claim C1 as written has every non-200 response answered by false, and the connection
  error as the only exception. A response with status 500 whose body cannot be decoded
  is answered by neither: the \<open>UnicodeDecodeError\<close> of \<open>response.text()\<close> escapes,
  and nothing is logged.
\<close>

theorem request_undecodable_body_raises:
  "request \<lparr>obj_id = 0, c_host = ''tv'', c_port = 5001, c_session = None\<rparr>
      (\<lambda>url json. Response 500 (BodyRaises ''UnicodeDecodeError'')) ''/notify'' None
     = ([], Inl (Uncaught ''UnicodeDecodeError''))"
  by (simp add: request_def on_response_def)

lemma test_connection_eq:
  "snd (test_connection K c net) =
     (case snd (request c net (ENDPOINT_NOTIFY K) (Some Map.empty)) of
        Inl (TvOverlayConnectionError m) \<Rightarrow> Inr False
      | r \<Rightarrow> r)"
  by (cases "request c net (ENDPOINT_NOTIFY K) (Some Map.empty)")
     (auto simp: test_connection_def split: sum.splits error.splits)

text \<open>
  Claim C7, as amended. \<open>test_connection\<close> posts the empty payload to the notify
  endpoint. It returns false when the request raises the connection error and otherwise
  does what the request does: it returns true exactly for a response with status 200,
  false exactly for a timeout, a transport failure or a non-200 response whose body was
  read or met one of these two, and it raises exactly the exceptions of other classes
  that the request lets through.
\<close>

theorem test_connection_result:
  assumes "net (base_url c @ ENDPOINT_NOTIFY K) Map.empty = outcome"
  shows
   "snd (test_connection K c net) =
       (case snd (request c net (ENDPOINT_NOTIFY K) (Some Map.empty)) of
          Inl (TvOverlayConnectionError m) \<Rightarrow> Inr False
        | r \<Rightarrow> r)
    \<and> (snd (test_connection K c net) = Inr True \<longleftrightarrow> (\<exists>body. outcome = Response 200 body))
    \<and> (snd (test_connection K c net) = Inr False \<longleftrightarrow>
         (outcome = Timeout \<or> (\<exists>err. outcome = ClientError err)
          \<or> (\<exists>st. st \<noteq> 200 \<and>
                (outcome = Response st BodyTimeout \<or> (\<exists>err. outcome = Response st (BodyClientError err))
                 \<or> (\<exists>text. outcome = Response st (Body text))))))
    \<and> (snd (test_connection K c net) = Inl e \<longleftrightarrow>
         (\<exists>x. e = Uncaught x \<and> (outcome = Raises x \<or> (\<exists>st. st \<noteq> 200 \<and> outcome = Response st (BodyRaises x)))))"
proof -
  have r: "request c net (ENDPOINT_NOTIFY K) (Some Map.empty) = on_response c outcome"
    by (simp add: request_eq assms)
  have t: "snd (test_connection K c net) =
       (case snd (on_response c outcome) of
          Inl (TvOverlayConnectionError m) \<Rightarrow> Inr False
        | r \<Rightarrow> r)"
    by (simp only: test_connection_eq r)
  have 2: "snd (test_connection K c net) = Inr True \<longleftrightarrow> (\<exists>body. outcome = Response 200 body)"
    unfolding t
    by (auto simp: on_response_def split: post_outcome.splits body_outcome.splits)
  have 3: "snd (test_connection K c net) = Inr False \<longleftrightarrow>
         (outcome = Timeout \<or> (\<exists>err. outcome = ClientError err)
          \<or> (\<exists>st. st \<noteq> 200 \<and>
                (outcome = Response st BodyTimeout \<or> (\<exists>err. outcome = Response st (BodyClientError err))
                 \<or> (\<exists>text. outcome = Response st (Body text)))))"
    unfolding t
    by (auto simp: on_response_def split: post_outcome.splits body_outcome.splits)
  have 4: "snd (test_connection K c net) = Inl e \<longleftrightarrow>
         (\<exists>x. e = Uncaught x \<and> (outcome = Raises x \<or> (\<exists>st. st \<noteq> 200 \<and> outcome = Response st (BodyRaises x))))"
    unfolding t
    by (auto simp: on_response_def split: post_outcome.splits body_outcome.splits)
  show ?thesis
    by (intro conjI test_connection_eq 2 3 4)
qed

text \<open>
  The statement of C7 at a device that answers with status 200 and at one that does not
  answer in time.
\<close>

theorem test_connection_result_witness:
  "snd (test_connection \<lparr>DEFAULT_PORT = 5001, DOMAIN = ''tvoverlay'', ENDPOINT_NOTIFY = ''/notify'',
                           ENDPOINT_NOTIFY_FIXED = ''/notify-fixed'', INT_NON_ASCII = (\<lambda>s. None)\<rparr>
          \<lparr>obj_id = 0, c_host = ''tv'', c_port = 5001, c_session = None\<rparr>
          (\<lambda>url json. Response 200 (Body ''ok''))) = Inr True
   \<and> snd (test_connection \<lparr>DEFAULT_PORT = 5001, DOMAIN = ''tvoverlay'', ENDPOINT_NOTIFY = ''/notify'',
                           ENDPOINT_NOTIFY_FIXED = ''/notify-fixed'', INT_NON_ASCII = (\<lambda>s. None)\<rparr>
          \<lparr>obj_id = 0, c_host = ''tv'', c_port = 5001, c_session = None\<rparr>
          (\<lambda>url json. Timeout)) = Inr False"
proof -
  let ?K = "\<lparr>DEFAULT_PORT = 5001, DOMAIN = ''tvoverlay'', ENDPOINT_NOTIFY = ''/notify'',
             ENDPOINT_NOTIFY_FIXED = ''/notify-fixed'', INT_NON_ASCII = (\<lambda>s. None)\<rparr>"
  let ?c = "\<lparr>obj_id = 0, c_host = ''tv'', c_port = 5001, c_session = None\<rparr>"
  have h1: "(\<lambda>url json. Response 200 (Body ''ok'')) (base_url ?c @ ENDPOINT_NOTIFY ?K) Map.empty
              = Response 200 (Body ''ok'')"
    by simp
  have h2: "(\<lambda>url json. Timeout) (base_url ?c @ ENDPOINT_NOTIFY ?K) Map.empty = Timeout"
    by simp
  have a: "snd (test_connection ?K ?c (\<lambda>url json. Response 200 (Body ''ok''))) = Inr True"
    using test_connection_result [OF h1, THEN conjunct2, THEN conjunct1] by simp
  have b: "snd (test_connection ?K ?c (\<lambda>url json. Timeout)) = Inr False"
    using test_connection_result [OF h2, THEN conjunct2, THEN conjunct2, THEN conjunct1] by simp
  from a b show ?thesis by (rule conjI)
qed

text \<open>
  Claim C7 as written has \<open>test_connection\<close> never raise. It catches the
  connection error only: at a response with status 500 whose body cannot be decoded, the
  \<open>UnicodeDecodeError\<close> escapes from it as it does from the request.
\<close>

theorem test_connection_undecodable_body_raises:
  "test_connection \<lparr>DEFAULT_PORT = 5001, DOMAIN = ''tvoverlay'', ENDPOINT_NOTIFY = ''/notify'',
                     ENDPOINT_NOTIFY_FIXED = ''/notify-fixed'', INT_NON_ASCII = (\<lambda>s. None)\<rparr>
      \<lparr>obj_id = 0, c_host = ''tv'', c_port = 5001, c_session = None\<rparr>
      (\<lambda>url json. Response 500 (BodyRaises ''UnicodeDecodeError''))
     = ([], Inl (Uncaught ''UnicodeDecodeError''))"
  by (simp add: test_connection_def request_def on_response_def)

end
